theory Spec2Isabelle
  imports Main "HOL-Library.Sublist"
begin

section \<open>Python values, objects and exceptions\<close>

text \<open>
  The exceptions the three modules raise or let through. \<open>SystemExit\<close> is the one
  constructor that is not a subclass of Python's \<open>Exception\<close>: an
  \<open>except Exception\<close> clause does not catch it.
\<close>

datatype pyexc =
    KeyError string
  | TypeError string
  | IndexError
  | ImportError
  | NotImplementedError string
  | ValueError string
  | SystemExit int
  | ExternalError string

fun is_Exception :: "pyexc \<Rightarrow> bool" where
  "is_Exception (SystemExit _) = False"
| "is_Exception _ = True"

text \<open>
  A value is an immediate (\<open>None\<close>, a boolean, an integer, a decimal float literal
  \<open>m / 10 ^ k\<close>, a string) or a reference to a mutable object of the heap. Objects are lists and
  dictionaries; a dictionary keeps its items in insertion order.
\<close>

datatype pyval = PNone | PBool bool | PInt int | PFloat int nat | PStr string | PRef nat

datatype pyobj = PList "pyval list" | PDict "(string \<times> pyval) list"

type_synonym heap = "pyobj list"

definition alloc :: "heap \<Rightarrow> pyobj \<Rightarrow> nat \<times> heap" where
  "alloc h ob = (length h, h @ [ob])"

definition heap_get :: "heap \<Rightarrow> nat \<Rightarrow> pyobj option" where
  "heap_get h a = (if a < length h then Some (h ! a) else None)"

text \<open>\<open>d[k] = v\<close>: an existing key keeps its place, a new key goes last.\<close>

fun dict_set :: "string \<Rightarrow> pyval \<Rightarrow> (string \<times> pyval) list \<Rightarrow> (string \<times> pyval) list" where
  "dict_set k v [] = [(k, v)]"
| "dict_set k v ((k', v') # kvs) =
     (if k' = k then (k, v) # kvs else (k', v') # dict_set k v kvs)"

fun dict_del :: "string \<Rightarrow> (string \<times> pyval) list \<Rightarrow> (string \<times> pyval) list" where
  "dict_del k [] = []"
| "dict_del k ((k', v') # kvs) = (if k' = k then kvs else (k', v') # dict_del k kvs)"

text \<open>Python list indexing: a negative index counts from the end.\<close>

definition py_index :: "'a list \<Rightarrow> int \<Rightarrow> nat option" where
  "py_index xs i =
     (let n = int (length xs); j = (if i < 0 then n + i else i)
      in if 0 \<le> j \<and> j < n then Some (nat j) else None)"

definition py_getitem :: "'a list \<Rightarrow> int \<Rightarrow> pyexc + 'a" where
  "py_getitem xs i = (case py_index xs i of None \<Rightarrow> Inl IndexError | Some j \<Rightarrow> Inr (xs ! j))"

text \<open>
  The content of a value with every reference followed, to a bounded depth: what
  \<open>==\<close> compares on nested lists and dictionaries.
\<close>

datatype tree = TNone | TBool bool | TInt int | TFloat int nat | TStr string
  | TList "tree list" | TDict "(string \<times> tree) list"

fun snapshot :: "nat \<Rightarrow> heap \<Rightarrow> pyval \<Rightarrow> tree option" where
  "snapshot n h PNone = Some TNone"
| "snapshot n h (PBool b) = Some (TBool b)"
| "snapshot n h (PInt i) = Some (TInt i)"
| "snapshot n h (PFloat m k) = Some (TFloat m k)"
| "snapshot n h (PStr s) = Some (TStr s)"
| "snapshot 0 h (PRef a) = None"
| "snapshot (Suc n) h (PRef a) =
     (case heap_get h a of
        None \<Rightarrow> None
      | Some (PList xs) \<Rightarrow> map_option TList (those (map (snapshot n h) xs))
      | Some (PDict kvs) \<Rightarrow>
          map_option TDict
            (those (map (\<lambda>kv. map_option (Pair (fst kv)) (snapshot n h (snd kv))) kvs)))"

section \<open>The unit-cell registry (abipy/data/ucells.py)\<close>

text \<open>
  The module's heap once \<open>_UCELLS\<close> has been built: every list literal is an object
  of its own, and each of the two dictionaries holds references to its lists.
  Addresses 0 to 9 belong to silicon, 10 to 20 to zno.
\<close>

definition fcc_rows :: "pyobj list" where
  "fcc_rows =
     [PList [PFloat 0 0, PFloat 5 1, PFloat 5 1],
      PList [PFloat 5 1, PFloat 0 0, PFloat 5 1],
      PList [PFloat 5 1, PFloat 5 1, PFloat 0 0]]"

definition xred_rows :: "pyobj list" where
  "xred_rows =
     [PList [PFloat 0 0, PFloat 0 0, PFloat 0 0],
      PList [PFloat 25 2, PFloat 25 2, PFloat 25 2]]"

definition ucells_heap :: heap where
  "ucells_heap =
     [PList [PInt 1, PInt 1],
      PList [PFloat 10217 3, PFloat 10217 3, PFloat 10217 3]] @
     fcc_rows @
     [PList [PRef 2, PRef 3, PRef 4]] @
     xred_rows @
     [PList [PRef 6, PRef 7],
      PDict [(''ntypat'', PInt 1), (''natom'', PInt 2), (''typat'', PRef 0),
             (''znucl'', PInt 14), (''acell'', PRef 1), (''rprim'', PRef 5),
             (''xred'', PRef 8)],
      PList [PInt 1, PInt 2],
      PList [PFloat 86277 4, PFloat 86277 4, PFloat 86277 4]] @
     fcc_rows @
     [PList [PRef 12, PRef 13, PRef 14],
      PList [PInt 30, PInt 8]] @
     xred_rows @
     [PList [PRef 17, PRef 18],
      PDict [(''ntypat'', PInt 2), (''natom'', PInt 2), (''typat'', PRef 10),
             (''acell'', PRef 11), (''rprim'', PRef 15), (''znucl'', PRef 16),
             (''xred'', PRef 19)]]"

definition UCELLS :: "(string \<times> nat) list" where
  "UCELLS = [(''silicon'', 9), (''zno'', 20)]"

definition ucell_names :: "string list" where
  "ucell_names = map fst UCELLS"

text \<open>
  \<open>ucell(name)\<close> is \<open>_UCELLS[name].copy()\<close>: a missing name raises \<open>KeyError\<close>;
  \<open>dict.copy\<close> allocates one new dictionary holding the same items, so the
  references in it still point to the registry's own lists.
\<close>

definition ucell :: "heap \<Rightarrow> string \<Rightarrow> pyexc + (nat \<times> heap)" where
  "ucell h name =
     (case map_of UCELLS name of
        None \<Rightarrow> Inl (KeyError name)
      | Some a \<Rightarrow>
          (case heap_get h a of
             Some (PDict kvs) \<Rightarrow> Inr (alloc h (PDict kvs))
           | _ \<Rightarrow> Inl (TypeError ''not a dict'')))"

text \<open>
  What a caller can do to a record \<open>r\<close> it was given: \<open>r[k] = v\<close>, \<open>del r[k]\<close>,
  and \<open>r[k][i] = v\<close> on a nested sequence field.
\<close>

datatype mutation = SetItem string pyval | DelItem string | SetNested string int pyval

fun top_level :: "mutation \<Rightarrow> bool" where
  "top_level (SetNested _ _ _) = False"
| "top_level _ = True"

fun apply_mutation :: "heap \<Rightarrow> nat \<Rightarrow> mutation \<Rightarrow> pyexc + heap" where
  "apply_mutation h r (SetItem k v) =
     (case heap_get h r of
        Some (PDict kvs) \<Rightarrow> Inr (h[r := PDict (dict_set k v kvs)])
      | _ \<Rightarrow> Inl (TypeError ''not a dict''))"
| "apply_mutation h r (DelItem k) =
     (case heap_get h r of
        Some (PDict kvs) \<Rightarrow>
          (if k \<in> fst ` set kvs then Inr (h[r := PDict (dict_del k kvs)])
           else Inl (KeyError k))
      | _ \<Rightarrow> Inl (TypeError ''not a dict''))"
| "apply_mutation h r (SetNested k i v) =
     (case heap_get h r of
        Some (PDict kvs) \<Rightarrow>
          (case map_of kvs k of
             None \<Rightarrow> Inl (KeyError k)
           | Some (PRef a) \<Rightarrow>
               (case heap_get h a of
                  Some (PList xs) \<Rightarrow>
                    (case py_index xs i of
                       None \<Rightarrow> Inl IndexError
                     | Some j \<Rightarrow> Inr (h[a := PList (xs[j := v])]))
                | _ \<Rightarrow> Inl (TypeError ''not a list''))
           | Some _ \<Rightarrow> Inl (TypeError ''not subscriptable''))
      | _ \<Rightarrow> Inl (TypeError ''not a dict''))"

text \<open>A mutation that raises leaves the heap as it was.\<close>

fun apply_mutations :: "heap \<Rightarrow> nat \<Rightarrow> mutation list \<Rightarrow> heap" where
  "apply_mutations h r [] = h"
| "apply_mutations h r (m # ms) =
     apply_mutations (case apply_mutation h r m of Inl _ \<Rightarrow> h | Inr h' \<Rightarrow> h') r ms"

text \<open>
  The scenario of two successive lookups: \<open>r1 = ucell(name)\<close>, the caller mutates
  \<open>r1\<close>, then \<open>r2 = ucell(name)\<close>; the result is the content of \<open>r2\<close>.
\<close>

definition second_lookup :: "heap \<Rightarrow> string \<Rightarrow> mutation list \<Rightarrow> pyexc + tree option" where
  "second_lookup h name ms =
     (case ucell h name of
        Inl e \<Rightarrow> Inl e
      | Inr (r1, h1) \<Rightarrow>
          (case ucell (apply_mutations h1 r1 ms) name of
             Inl e \<Rightarrow> Inl e
           | Inr (r2, h2) \<Rightarrow> Inr (snapshot 3 h2 (PRef r2))))"

definition stored_record :: "heap \<Rightarrow> string \<Rightarrow> tree option" where
  "stored_record h name =
     (case map_of UCELLS name of None \<Rightarrow> None | Some a \<Rightarrow> snapshot 3 h (PRef a))"

text \<open>
  Which references a value or an object holds, and heaps that agree on, and are
  closed under references within, their first \<open>n\<close> addresses.
\<close>

fun refs_below :: "nat \<Rightarrow> pyval \<Rightarrow> bool" where
  "refs_below n (PRef a) = (a < n)"
| "refs_below n _ = True"

fun obj_below :: "nat \<Rightarrow> pyobj \<Rightarrow> bool" where
  "obj_below n (PList xs) = list_all (refs_below n) xs"
| "obj_below n (PDict kvs) = list_all (\<lambda>kv. refs_below n (snd kv)) kvs"

definition closed_below :: "nat \<Rightarrow> heap \<Rightarrow> bool" where
  "closed_below n h = (n \<le> length h \<and> list_all (obj_below n) (take n h))"

definition agree_below :: "nat \<Rightarrow> heap \<Rightarrow> heap \<Rightarrow> bool" where
  "agree_below n h h' = (n \<le> length h \<and> n \<le> length h' \<and> take n h' = take n h)"

section \<open>The dataframe printer (abipy/tools/printing.py)\<close>

text \<open>
  A pandas DataFrame is an object of a store of frames, addressed by its index; the
  display options of pandas are a global table from option names to values. The
  library operations the function calls are modelled with the flags it passes:
  \<open>sort_values(by, inplace)\<close> writes the sorted rows into the frame itself when
  \<open>inplace\<close> is set and into a newly allocated frame otherwise, and
  \<open>option_context\<close> sets the given options on entry and puts the saved values back
  on exit. How rows are ordered and how a frame is rendered under given options are
  parameters.
\<close>

record frame =
  columns :: "string list"
  rows :: "pyval list list"

record pandas =
  frames :: "frame list"
  pd_options :: "string \<Rightarrow> pyval"
  sink :: "string list"

record pd_lib =
  sort_rows :: "string \<Rightarrow> frame \<Rightarrow> pyval list list"
  to_text :: "(string \<Rightarrow> pyval) \<Rightarrow> frame \<Rightarrow> string"

definition sort_values :: "pd_lib \<Rightarrow> nat \<Rightarrow> string \<Rightarrow> bool \<Rightarrow> pandas \<Rightarrow> nat option \<times> pandas" where
  "sort_values lib fr by_key inplace w =
     (let sorted = (frames w ! fr)\<lparr>rows := sort_rows lib by_key (frames w ! fr)\<rparr>
      in if inplace then (None, w\<lparr>frames := (frames w)[fr := sorted]\<rparr>)
         else (Some (length (frames w)), w\<lparr>frames := frames w @ [sorted]\<rparr>))"

fun set_options :: "(string \<times> pyval) list \<Rightarrow> (string \<Rightarrow> pyval) \<Rightarrow> (string \<Rightarrow> pyval)" where
  "set_options [] opts = opts"
| "set_options ((k, v) # kvs) opts = set_options kvs (opts(k := v))"

text \<open>\<open>option_context.__enter__\<close>: remember the current values, then set the new ones.\<close>

definition option_context_enter ::
  "(string \<times> pyval) list \<Rightarrow> pandas \<Rightarrow> (string \<times> pyval) list \<times> pandas" where
  "option_context_enter kvs w =
     (map (\<lambda>kv. (fst kv, pd_options w (fst kv))) kvs,
      w\<lparr>pd_options := set_options kvs (pd_options w)\<rparr>)"

text \<open>\<open>option_context.__exit__\<close>: set the remembered values again.\<close>

definition option_context_exit :: "(string \<times> pyval) list \<Rightarrow> pandas \<Rightarrow> pandas" where
  "option_context_exit undo w = w\<lparr>pd_options := set_options undo (pd_options w)\<rparr>"

definition print_to :: "string \<Rightarrow> pandas \<Rightarrow> pandas" where
  "print_to s w = w\<lparr>sink := sink w @ [s]\<rparr>"

text \<open>
  \<open>print_dataframe(frame, title, precision, sortby, file)\<close>; \<open>fr\<close> is the address of
  the caller's frame, and the local name \<open>frame\<close> is rebound to the sorted frame
  when there is one.
\<close>

definition print_dataframe ::
  "pd_lib \<Rightarrow> nat \<Rightarrow> string option \<Rightarrow> int \<Rightarrow> string option \<Rightarrow> pandas \<Rightarrow> pandas" where
  "print_dataframe lib fr title precision sortby w =
     (let w1 = (case title of None \<Rightarrow> w | Some t \<Rightarrow> print_to t w);
          (fr', w2) =
            (case sortby of
               None \<Rightarrow> (fr, w1)
             | Some k \<Rightarrow>
                 if k \<in> set (columns (frames w1 ! fr))
                 then (case sort_values lib fr k False w1 of
                         (Some a, w') \<Rightarrow> (a, w')
                       | (None, w') \<Rightarrow> (fr, w'))
                 else (fr, w1));
          (undo, w3) = option_context_enter
            [(''display.max_rows'', PInt (int (length (rows (frames w2 ! fr'))))),
             (''display.max_columns'', PInt (int (length (columns (frames w2 ! fr'))))),
             (''display.precision'', PInt precision)] w2;
          w4 = print_to (to_text lib (pd_options w3) (frames w3 ! fr')) w3;
          w5 = print_to '' '' w4
      in option_context_exit undo w5)"

section \<open>The command-line front end (abipy/scripts/abinp.py)\<close>

subsection \<open>Options, inputs and the outside world\<close>

text \<open>The namespace the argument parser returns; \<open>command\<close> is the verb.\<close>

record options =
  command :: "string option"
  filepath :: string
  verbose :: nat
  loglevel :: string
  mapi_key :: "string option"
  endpoint :: string
  mnemonics :: bool
  usepaw :: bool
  jdtset :: int
  pseudos :: "string list option"
  max_ncpus :: int

text \<open>
  An \<open>AbinitInput\<close>: a structure, a pseudopotential table and the input variables;
  \<open>inp[k] = v\<close> sets a variable. A \<open>MultiDataset\<close> is a list of inputs. The
  factories return inputs that are objects of their own, so a list of values stands
  for them.
\<close>

record ('s, 'p) abinit_input =
  inp_structure :: 's
  inp_pseudos :: 'p
  inp_vars :: "string \<rightharpoonup> pyval"

type_synonym ('s, 'p) multi = "('s, 'p) abinit_input list"

definition setitem :: "string \<Rightarrow> pyval \<Rightarrow> ('s, 'p) abinit_input \<Rightarrow> ('s, 'p) abinit_input" where
  "setitem k v inp = inp\<lparr>inp_vars := (inp_vars inp)(k \<mapsto> v)\<rparr>"

text \<open>An \<open>AbinitInputFile\<close>: the variables of each dataset, \<open>ndtset\<close>, the structure.\<close>

record 's abifile =
  datasets :: "(string \<rightharpoonup> pyval) list"
  ndtset :: int
  file_structure :: 's

text \<open>What \<open>abivalidate\<close> returns: the return code of Abinit and its files.\<close>

record validation =
  retcode :: int
  log_file :: string
  stderr_file :: string
  output_file_path :: string

text \<open>
  The methods \<open>finalize\<close> calls on the object it prints: \<open>set_mnemonics\<close>, which
  changes the object, and \<open>__str__\<close>. They are the object's own code, and either
  can raise.
\<close>

record 'o deck_ops =
  set_mnemonics :: "'o \<Rightarrow> bool \<Rightarrow> pyexc + 'o"
  to_string :: "'o \<Rightarrow> pyexc + string"

text \<open>
  The external collaborators, as parameters: the filesystem, the structure library,
  the pseudopotential tables (\<open>dojo_tables\<close> is \<open>None\<close> when \<open>pseudo_dojo\<close> cannot be
  imported), the factories, Abinit itself, the parser of its output files
  (\<open>'f\<close> is an output file), the \<open>logging\<close> module, \<open>argparse\<close>, and the handlers
  this theory does not look into.
\<close>

datatype event =
    FromFile string
  | FromMpid string bool "string option" string
  | Dispatch string

record world =
  stdout :: "string list"
  stderr :: "string list"
  calls :: "event list"

record ('s, 'p, 'f) env =
  path_exists :: "string \<Rightarrow> bool"
  Structure_from_file :: "string \<Rightarrow> pyexc + 's"
  Structure_from_mpid :: "string \<Rightarrow> bool \<Rightarrow> string option \<Rightarrow> string \<Rightarrow> pyexc + 's"
  PseudoTable_as_table :: "string list \<Rightarrow> pyexc + 'p"
  dojo_tables :: "(string \<Rightarrow> pyexc + 'p) option"
  repr_table :: "'p \<Rightarrow> string"
  gs_input :: "'s \<Rightarrow> 'p \<Rightarrow> (string \<times> pyval) list \<Rightarrow> pyexc + ('s, 'p) abinit_input"
  ebands_input :: "'s \<Rightarrow> 'p \<Rightarrow> (string \<times> pyval) list \<Rightarrow> pyexc + ('s, 'p) multi"
  phonons_from_gsinput ::
    "('s, 'p) abinit_input \<Rightarrow> (string \<times> pyval) list \<Rightarrow> pyexc + ('s, 'p) multi"
  g0w0_with_ppmodel_inputs ::
    "'s \<Rightarrow> 'p \<Rightarrow> pyval list \<Rightarrow> (string \<times> pyval) list \<Rightarrow> pyexc + ('s, 'p) multi"
  input_ops :: "('s, 'p) abinit_input deck_ops"
  multi_ops :: "('s, 'p) multi deck_ops"
  AbinitInputFile :: "string \<Rightarrow> pyexc + 's abifile"
  abivalidate :: "('s, 'p) abinit_input \<Rightarrow> pyexc + validation"
  abiopen :: "string \<Rightarrow> pyexc + 'f"
  spget_summary :: "'f \<Rightarrow> nat \<Rightarrow> string"
  abi_spacegroup_to_string :: "'f \<Rightarrow> nat \<Rightarrow> string"
  str_exc :: "pyexc \<Rightarrow> string"
  logging_getattr :: "string \<Rightarrow> pyval option"
  parse_args :: "string list \<Rightarrow> pyexc + options"
  other_handler :: "string \<Rightarrow> options \<Rightarrow> world \<Rightarrow> (pyexc + int) \<times> world"

definition nl :: string where
  "nl = [CHR 0x0A]"

definition print :: "string \<Rightarrow> world \<Rightarrow> world" where
  "print s w = w\<lparr>stdout := stdout w @ [s]\<rparr>"

definition record_call :: "event \<Rightarrow> world \<Rightarrow> world" where
  "record_call c w = w\<lparr>calls := calls w @ [c]\<rparr>"

text \<open>Decimal rendering of integers, for the \<open>%s\<close> of a format string.\<close>

function str_nat :: "nat \<Rightarrow> string" where
  "str_nat n =
     (if n < 10 then [''0123456789'' ! n]
      else str_nat (n div 10) @ [''0123456789'' ! (n mod 10)])"
  by pat_completeness auto
termination
  by (relation "measure id") auto

definition str_int :: "int \<Rightarrow> string" where
  "str_int i = (if i < 0 then ''-'' @ str_nat (nat (- i)) else str_nat (nat i))"

definition upper_char :: "char \<Rightarrow> char" where
  "upper_char c =
     (let n = (of_char c :: nat) in if 97 \<le> n \<and> n \<le> 122 then char_of (n - 32) else c)"

definition upper :: "string \<Rightarrow> string" where
  "upper s = map upper_char s"

subsection \<open>Resolving the structure and the pseudopotentials\<close>

definition get_structure ::
  "('s, 'p, 'f) env \<Rightarrow> options \<Rightarrow> world \<Rightarrow> (pyexc + 's) \<times> world" where
  "get_structure env opts w =
     (if path_exists env (filepath opts) then
        (Structure_from_file env (filepath opts), record_call (FromFile (filepath opts)) w)
      else if prefix ''mp-'' (filepath opts) then
        (Structure_from_mpid env (filepath opts) True (mapi_key opts) (endpoint opts),
         record_call (FromMpid (filepath opts) True (mapi_key opts) (endpoint opts)) w)
      else
        (Inl (TypeError (''Don't know how to extract structure object from '' @ filepath opts)),
         w))"

definition get_pseudotable ::
  "('s, 'p, 'f) env \<Rightarrow> options \<Rightarrow> world \<Rightarrow> (pyexc + 'p) \<times> world" where
  "get_pseudotable env opts w =
     (case pseudos opts of
        Some ps \<Rightarrow> (PseudoTable_as_table env ps, w)
      | None \<Rightarrow>
          (case dojo_tables env of
             None \<Rightarrow>
               (Inl ImportError,
                print ''or use `--pseudos FILE_LIST` to specify the pseudopotentials to use.''
                  (print ''PseudoDojo package not installed. Please install it with `pip install pseudo_dojo`'' w))
           | Some tables \<Rightarrow>
               if usepaw opts then (Inl (NotImplementedError ''PAW table is missing''), w)
               else
                 (case tables ''ONCVPSP-PBE-PDv0.2-accuracy'' of
                    Inl e \<Rightarrow> (Inl e, w)
                  | Inr table \<Rightarrow>
                      (Inr table,
                       print (''Using pseudos from PseudoDojo table '' @ repr_table env table) w))))"

subsection \<open>Printing the result\<close>

definition disclaimer :: "string list" where
  "disclaimer =
     [''# This input file template has been automatically generated by the abinp.py script.'',
      ''# Several input parameters have default values that might not be suitable for you particular calculation.'',
      ''# Please check the input file, make sure you understand what's happening and modify the template according to your needs'']"

text \<open>Each element of \<open>stdout\<close> is the text of one call of \<open>print\<close>.\<close>

definition finalize :: "'o deck_ops \<Rightarrow> 'o \<Rightarrow> options \<Rightarrow> world \<Rightarrow> (pyexc + int) \<times> world" where
  "finalize ops obj opts w =
     (case (if mnemonics opts then set_mnemonics ops obj True else Inr obj) of
        Inl e \<Rightarrow> (Inl e, w)
      | Inr obj' \<Rightarrow>
          (case to_string ops obj' of
             Inl e \<Rightarrow> (Inl e, w)
           | Inr rendering \<Rightarrow>
               (let w1 = print rendering w;
                    w2 = print nl w1;
                    w3 = print (disclaimer ! 0) w2;
                    w4 = print (disclaimer ! 1) w3;
                    w5 = print (disclaimer ! 2) w4
                in (Inr 0, w5))))"

subsection \<open>Handlers that read an Abinit input file\<close>

definition build_abinit_input_from_file ::
  "('s, 'p, 'f) env \<Rightarrow> options \<Rightarrow> (string \<rightharpoonup> pyval) \<Rightarrow> world
   \<Rightarrow> (pyexc + ('s, 'p) abinit_input) \<times> world" where
  "build_abinit_input_from_file env opts abivars w =
     (case AbinitInputFile env (filepath opts) of
        Inl e \<Rightarrow> (Inl e, w)
      | Inr abifile \<Rightarrow>
          (case get_pseudotable env opts w of
             (Inl e, w1) \<Rightarrow> (Inl e, w1)
           | (Inr table, w1) \<Rightarrow>
               (case py_getitem (datasets abifile) (jdtset opts - 1) of
                  Inl e \<Rightarrow> (Inl e, w1)
                | Inr file_vars \<Rightarrow>
                    (let (abi_kwargs, w2) =
                           (if ndtset abifile \<noteq> 1 then
                              (file_vars(''jdtset'' \<mapsto> PInt (jdtset opts)),
                               print (''# Input file contains '' @ str_int (ndtset abifile) @
                                      '' datasets, will select jdtset index '' @
                                      str_int (jdtset opts) @ '':'') w1)
                            else (file_vars, w1))
                     in (Inr \<lparr>inp_structure = file_structure abifile, inp_pseudos = table,
                              inp_vars = abi_kwargs ++ abivars\<rparr>, w2)))))"

definition abispg_abivars :: "string \<rightharpoonup> pyval" where
  "abispg_abivars = [''chkprim'' \<mapsto> PInt 0, ''mem_test'' \<mapsto> PInt 0]"

definition abinp_abispg ::
  "('s, 'p, 'f) env \<Rightarrow> options \<Rightarrow> world \<Rightarrow> (pyexc + int) \<times> world" where
  "abinp_abispg env opts w =
     (case build_abinit_input_from_file env opts abispg_abivars w of
        (Inl e, w1) \<Rightarrow> (Inl e, w1)
      | (Inr inp, w1) \<Rightarrow>
          (case abivalidate env inp of
             Inl e \<Rightarrow> (Inl e, w1)
           | Inr r \<Rightarrow>
               if retcode r \<noteq> 0 then
                 (Inr (retcode r), print (log_file r @ '' '' @ stderr_file r) w1)
               else
                 (case abiopen env (output_file_path r) of
                    Inl exc \<Rightarrow>
                      if is_Exception exc then
                        (Inr 1,
                         print (''Exception:'' @ nl @ '' '' @ str_exc env exc)
                           (print (''Error while trying to parse output file: '' @
                                   output_file_path r) w1))
                      else (Inl exc, w1)
                  | Inr out \<Rightarrow>
                      (let w2 = print (spget_summary env out (verbose opts)) w1;
                           w3 = (if verbose opts \<noteq> 0
                                 then print (abi_spacegroup_to_string env out (verbose opts)) w2
                                 else w2)
                       in (Inr 0, w3)))))"

subsection \<open>Handlers that generate an input\<close>

definition gs_kwargs :: "(string \<times> pyval) list" where
  "gs_kwargs =
     [(''kppa'', PNone), (''ecut'', PNone), (''pawecutdg'', PNone), (''scf_nband'', PNone),
      (''accuracy'', PStr ''normal''), (''spin_mode'', PStr ''unpolarized''),
      (''smearing'', PStr ''fermi_dirac:0.1 eV''), (''charge'', PFloat 0 0),
      (''scf_algorithm'', PNone)]"

definition ebands_kwargs :: "(string \<times> pyval) list" where
  "ebands_kwargs =
     [(''kppa'', PNone), (''nscf_nband'', PNone), (''ndivsm'', PInt 15),
      (''ecut'', PNone), (''pawecutdg'', PNone), (''scf_nband'', PNone),
      (''accuracy'', PStr ''normal''), (''spin_mode'', PStr ''unpolarized''),
      (''smearing'', PStr ''fermi_dirac:0.1 eV''), (''charge'', PFloat 0 0),
      (''scf_algorithm'', PNone), (''dos_kppa'', PNone)]"

definition phonons_kwargs :: "(string \<times> pyval) list" where
  "phonons_kwargs =
     [(''ph_ngqpt'', PNone), (''qpoints'', PNone), (''with_ddk'', PBool True),
      (''with_dde'', PBool True), (''with_bec'', PBool False), (''ph_tol'', PNone),
      (''ddk_tol'', PNone), (''dde_tol'', PNone), (''wfq_tol'', PNone),
      (''qpoints_to_skip'', PNone)]"

definition g0w0_args :: "pyval list" where
  "g0w0_args = [PInt 1000, PInt 100, PInt 4, PInt 12]"

definition g0w0_kwargs :: "(string \<times> pyval) list" where
  "g0w0_kwargs =
     [(''ecut'', PNone), (''pawecutdg'', PNone), (''accuracy'', PStr ''normal''),
      (''spin_mode'', PStr ''unpolarized''), (''smearing'', PStr ''fermi_dirac:0.1 eV''),
      (''ppmodel'', PStr ''godby''), (''charge'', PFloat 0 0), (''scf_algorithm'', PNone),
      (''inclvkb'', PInt 2), (''scr_nband'', PNone), (''sigma_nband'', PNone),
      (''gw_qprange'', PInt 1)]"

text \<open>\<open>for inp in multi[1:]: inp[k] = v\<close>\<close>

fun set_in_tail :: "string \<Rightarrow> pyval \<Rightarrow> ('s, 'p) multi \<Rightarrow> ('s, 'p) multi" where
  "set_in_tail k v [] = []"
| "set_in_tail k v (first # later) = first # map (setitem k v) later"

text \<open>\<open>multi[-1][k] = v\<close>\<close>

definition set_in_last :: "string \<Rightarrow> pyval \<Rightarrow> ('s, 'p) multi \<Rightarrow> pyexc + ('s, 'p) multi" where
  "set_in_last k v multi =
     (case py_index multi (- 1) of
        None \<Rightarrow> Inl IndexError
      | Some j \<Rightarrow> Inr (multi[j := setitem k v (multi ! j)]))"

definition abinp_gs ::
  "('s, 'p, 'f) env \<Rightarrow> options \<Rightarrow> world \<Rightarrow> (pyexc + int) \<times> world" where
  "abinp_gs env opts w =
     (case (Structure_from_file env (filepath opts),
            record_call (FromFile (filepath opts)) w) of
        (Inl e, w1) \<Rightarrow> (Inl e, w1)
      | (Inr structure, w1) \<Rightarrow>
          (case get_pseudotable env opts w1 of
             (Inl e, w2) \<Rightarrow> (Inl e, w2)
           | (Inr table, w2) \<Rightarrow>
               (case gs_input env structure table gs_kwargs of
                  Inl e \<Rightarrow> (Inl e, w2)
                | Inr gsinp \<Rightarrow> finalize (input_ops env) gsinp opts w2)))"

definition abinp_ebands ::
  "('s, 'p, 'f) env \<Rightarrow> options \<Rightarrow> world \<Rightarrow> (pyexc + int) \<times> world" where
  "abinp_ebands env opts w =
     (case get_structure env opts w of
        (Inl e, w1) \<Rightarrow> (Inl e, w1)
      | (Inr structure, w1) \<Rightarrow>
          (case get_pseudotable env opts w1 of
             (Inl e, w2) \<Rightarrow> (Inl e, w2)
           | (Inr table, w2) \<Rightarrow>
               (case ebands_input env structure table ebands_kwargs of
                  Inl e \<Rightarrow> (Inl e, w2)
                | Inr multi \<Rightarrow>
                    finalize (multi_ops env)
                      (set_in_tail ''getwfk'' (PInt 1) multi) opts w2)))"

definition abinp_phonons ::
  "('s, 'p, 'f) env \<Rightarrow> options \<Rightarrow> world \<Rightarrow> (pyexc + int) \<times> world" where
  "abinp_phonons env opts w =
     (case get_structure env opts w of
        (Inl e, w1) \<Rightarrow> (Inl e, w1)
      | (Inr structure, w1) \<Rightarrow>
          (case get_pseudotable env opts w1 of
             (Inl e, w2) \<Rightarrow> (Inl e, w2)
           | (Inr table, w2) \<Rightarrow>
               (case gs_input env structure table gs_kwargs of
                  Inl e \<Rightarrow> (Inl e, w2)
                | Inr gsinp \<Rightarrow>
                    (case phonons_from_gsinput env gsinp phonons_kwargs of
                       Inl e \<Rightarrow> (Inl e, w2)
                     | Inr multi \<Rightarrow>
                         finalize (multi_ops env)
                           (set_in_tail ''getwfk'' (PInt 1) multi) opts w2))))"

definition abinp_g0w0 ::
  "('s, 'p, 'f) env \<Rightarrow> options \<Rightarrow> world \<Rightarrow> (pyexc + int) \<times> world" where
  "abinp_g0w0 env opts w =
     (case get_structure env opts w of
        (Inl e, w1) \<Rightarrow> (Inl e, w1)
      | (Inr structure, w1) \<Rightarrow>
          (case get_pseudotable env opts w1 of
             (Inl e, w2) \<Rightarrow> (Inl e, w2)
           | (Inr table, w2) \<Rightarrow>
               (case g0w0_with_ppmodel_inputs env structure table g0w0_args g0w0_kwargs of
                  Inl e \<Rightarrow> (Inl e, w2)
                | Inr multi \<Rightarrow>
                    (case set_in_last ''getscr'' (PInt (- 1))
                            (set_in_tail ''getwfk'' (PInt (- 1)) multi) of
                       Inl e \<Rightarrow> (Inl e, w2)
                     | Inr multi' \<Rightarrow> finalize (multi_ops env) multi' opts w2))))"

subsection \<open>The entry point\<close>

definition get_epilog :: string where
  "get_epilog = nl @ concat (map (\<lambda>line. line @ nl)
     [''Usage example:'',
      [],
      ''######################'',
      ''# Require Abinit Input'',
      ''######################'',
      [],
      ''    abinp.py validate run.abi       # Call abinit to validate run.abi input file'',
      ''    abinp.py abispg run.abi         # Call abinit to get space group information.'',
      ''    abinp.py autoparal run.abi      # Call abinit to get list of autoparal configurations.'',
      ''    abinp.py ibz run.abi            # Call abinit to get list of k-points in the IBZ.'',
      ''    abinp.py phperts run.abi        # Call abinit to get list of atomic perturbations for phonons.'',
      [],
      ''########################'',
      ''# Abinit Input Factories'',
      ''########################'',
      [],
      ''    abinp.py gs si.cif > run.abi    # Build input for GS run for silicon structure read from CIF file.'',
      ''                                    # Redirect output to run.abi.'',
      ''    abinp.py ebands out_GSR.nc      # Build input for SCF + NSCF run with structure read from GSR.nc file.'',
      ''    abinp.py ebands mp-149          # Build input for SCF+NSCF run with (relaxed) structure taken from the'',
      ''                                    # materials project database. Requires internet connect and MAPI_KEY.'',
      ''    abinp.py phonons POSCAR         # Build input for GS + DFPT calculation of phonons with DFPT.'',
      ''    abinp.py phonons out_HIST.nc    # Build input for G0W0 run with (relaxed) structure read from HIST.nc file.'',
      [],
      ''########################'',
      ''# Anaddb Input Factories'',
      ''########################'',
      [],
      ''    abinp.py anaph out_DDB          # Build anaddb input file for phonon bands + DOS from DDB file.'',
      [],
      [],
      ''Note that one can use pass any file providing a pymatgen structure'',
      ''e.g. Abinit netcdf files, CIF files, POSCAR, ...'',
      ''Use `abinp.py --help` for help and `abinp.py COMMAND --help` to get the documentation for `COMMAND`.'',
      ''Use `-v` to increase verbosity level (can be supplied multiple times e.g -vv).'',
      [],
      ''CAVEAT: This script provides a simplified interface to the AbiPy factory functions.'',
      ''For a more flexible interface please use the AbiPy objects to generate input files and workflows.''])"

text \<open>\<open>show_examples_and_exit\<close> ends in \<open>sys.exit\<close>, which raises \<open>SystemExit\<close>.\<close>

definition show_examples_and_exit :: "string option \<Rightarrow> int \<Rightarrow> world \<Rightarrow> (pyexc + int) \<times> world" where
  "show_examples_and_exit err_msg error_code w =
     (let w1 = w\<lparr>stderr := stderr w @ [get_epilog]\<rparr>;
          w2 = (case err_msg of
                  None \<Rightarrow> w1
                | Some msg \<Rightarrow>
                    if msg = [] then w1
                    else w1\<lparr>stderr := stderr w1 @ [''Fatal Error'' @ nl @ msg @ nl]\<rparr>)
      in (Inl (SystemExit error_code), w2))"

text \<open>\<open>globals()["abinp_" + options.command](options)\<close>\<close>

definition dispatch ::
  "('s, 'p, 'f) env \<Rightarrow> string \<Rightarrow> options \<Rightarrow> world \<Rightarrow> (pyexc + int) \<times> world" where
  "dispatch env verb opts w =
     (let w1 = record_call (Dispatch verb) w in
      if verb = ''abispg'' then abinp_abispg env opts w1
      else if verb = ''gs'' then abinp_gs env opts w1
      else if verb = ''ebands'' then abinp_ebands env opts w1
      else if verb = ''phonons'' then abinp_phonons env opts w1
      else if verb = ''g0w0'' then abinp_g0w0 env opts w1
      else if verb \<in> set [''validate'', ''autoparal'', ''ibz'', ''phperts'', ''anaph'', ''wannier90'']
      then other_handler env verb opts w1
      else (Inl (KeyError (''abinp_'' @ verb)), w))"

text \<open>
  \<open>main\<close>: the \<open>except Exception\<close> clause around \<open>parse_args\<close> catches what
  \<open>is_Exception\<close> holds of and lets any other exception through.
\<close>

definition main ::
  "('s, 'p, 'f) env \<Rightarrow> string list \<Rightarrow> world \<Rightarrow> (pyexc + int) \<times> world" where
  "main env argv w =
     (case parse_args env argv of
        Inl exc \<Rightarrow>
          if is_Exception exc then show_examples_and_exit None 1 w else (Inl exc, w)
      | Inr opts \<Rightarrow>
          (case command opts of
             None \<Rightarrow> show_examples_and_exit None 1 w
           | Some verb \<Rightarrow>
               if verb = [] then show_examples_and_exit None 1 w
               else
                 (case logging_getattr env (upper (loglevel opts)) of
                    Some (PInt numeric_level) \<Rightarrow> dispatch env verb opts w
                  | _ \<Rightarrow> (Inl (ValueError (''Invalid log level: '' @ loglevel opts)), w))))"

text \<open>
  The status the process ends with after \<open>sys.exit(main())\<close>: the returned code, the
  code of a \<open>SystemExit\<close>, or 1 for any other uncaught exception.
\<close>

fun exit_status :: "pyexc + int \<Rightarrow> int" where
  "exit_status (Inr rc) = rc"
| "exit_status (Inl (SystemExit code)) = code"
| "exit_status (Inl _) = 1"

subsection \<open>A sample environment\<close>

text \<open>
  One concrete outside world for evaluating the functions above: the files
  \<open>si.cif\<close> and \<open>run.abi\<close> exist and \<open>mp-149\<close> does not; a structure is named by
  where it comes from, a table by its files; \<open>pseudo_dojo\<close> is installed;
  \<open>ebands_input\<close> returns two datasets; \<open>argparse\<close> knows the eleven verbs, takes
  the first argument as the verb, the second as the path and what follows
  \<open>--pseudos\<close> as the list of files, and on anything else calls its \<open>error\<close>
  method, which ends in \<open>sys.exit(2)\<close>.
\<close>

definition sample_input :: "string \<Rightarrow> string list \<Rightarrow> (string, string list) abinit_input" where
  "sample_input s t =
     \<lparr>inp_structure = s, inp_pseudos = t, inp_vars = [''ecut'' \<mapsto> PInt 8]\<rparr>"

text \<open>
  The defaults \<open>get_parser\<close> declares for the options (\<open>--jdtset\<close> is 1,
  \<open>--pseudos\<close> is \<open>None\<close>, \<open>--usepaw\<close> is off), with no verb and no path.
\<close>

definition default_options :: options where
  "default_options =
     \<lparr>command = None, filepath = [], verbose = 0, loglevel = ''ERROR'', mapi_key = None,
      endpoint = ''https://www.materialsproject.org/rest/v2'', mnemonics = False,
      usepaw = False, jdtset = 1, pseudos = None, max_ncpus = 50\<rparr>"

definition verbs :: "string list" where
  "verbs = [''validate'', ''autoparal'', ''abispg'', ''ibz'', ''phperts'', ''gs'',
            ''ebands'', ''phonons'', ''g0w0'', ''anaph'', ''wannier90'']"

fun sample_parse_args :: "string list \<Rightarrow> pyexc + options" where
  "sample_parse_args [] = Inr default_options"
| "sample_parse_args [verb] = Inl (SystemExit 2)"
| "sample_parse_args (verb # path # rest) =
     (if verb \<in> set verbs then
        (case rest of
           [] \<Rightarrow> Inr (default_options\<lparr>command := Some verb, filepath := path\<rparr>)
         | flag # files \<Rightarrow>
             if flag = ''--pseudos'' \<and> files \<noteq> [] then
               Inr (default_options\<lparr>command := Some verb, filepath := path,
                                     pseudos := Some files\<rparr>)
             else Inl (SystemExit 2))
      else Inl (SystemExit 2))"

definition sample_gs_options :: options where
  "sample_gs_options = default_options\<lparr>filepath := ''si.cif'', pseudos := Some [''Si.psp8'']\<rparr>"

definition sample_abifile :: "string abifile" where
  "sample_abifile =
     \<lparr>datasets = [[''ecut'' \<mapsto> PInt 8, ''chkprim'' \<mapsto> PInt 1], [''ecut'' \<mapsto> PInt 12]],
      ndtset = 2, file_structure = ''run.abi''\<rparr>"

definition sample_env :: "(string, string list, string) env" where
  "sample_env =
     \<lparr>path_exists = (\<lambda>p. p \<in> set [''si.cif'', ''run.abi'']),
      Structure_from_file =
        (\<lambda>p. if p \<in> set [''si.cif'', ''run.abi''] then Inr (''file:'' @ p)
              else Inl (ExternalError ''No such file'')),
      Structure_from_mpid = (\<lambda>p final key url. Inr (''mp:'' @ p)),
      PseudoTable_as_table = Inr,
      dojo_tables = Some (\<lambda>name. Inr [name]),
      repr_table = concat,
      gs_input = (\<lambda>s t kw. Inr (sample_input s t)),
      ebands_input = (\<lambda>s t kw. Inr [sample_input s t, sample_input s t]),
      phonons_from_gsinput = (\<lambda>inp kw. Inr [inp, inp, inp]),
      g0w0_with_ppmodel_inputs = (\<lambda>s t args kw. Inr [sample_input s t, sample_input s t]),
      input_ops = \<lparr>set_mnemonics = (\<lambda>ob b. Inr ob), to_string = (\<lambda>ob. Inr (inp_structure ob))\<rparr>,
      multi_ops = \<lparr>set_mnemonics = (\<lambda>ob b. Inr ob),
                   to_string = (\<lambda>m. Inr (concat (map inp_structure m)))\<rparr>,
      AbinitInputFile = (\<lambda>p. if p = ''run.abi'' then Inr sample_abifile
                              else Inl (ExternalError ''No such file'')),
      abivalidate = (\<lambda>inp. Inr \<lparr>retcode = 0, log_file = ''run.log'',
                                 stderr_file = ''run.err'', output_file_path = ''run.abo''\<rparr>),
      abiopen = (\<lambda>p. Inl (ValueError ''cannot parse'')),
      spget_summary = (\<lambda>out v. out),
      abi_spacegroup_to_string = (\<lambda>out v. out),
      str_exc = (\<lambda>e. ''error''),
      logging_getattr = (\<lambda>name. if name = ''ERROR'' then Some (PInt 40) else None),
      parse_args = sample_parse_args,
      other_handler = (\<lambda>verb opts w. (Inr 0, w))\<rparr>"

text \<open>An object whose \<open>__str__\<close> raises, and one whose \<open>set_mnemonics\<close> raises.\<close>

definition unprintable_ops :: "unit deck_ops" where
  "unprintable_ops =
     \<lparr>set_mnemonics = (\<lambda>ob b. Inr ob),
      to_string = (\<lambda>ob. Inl (ExternalError ''cannot render''))\<rparr>"

definition no_mnemonics_ops :: "unit deck_ops" where
  "no_mnemonics_ops =
     \<lparr>set_mnemonics = (\<lambda>ob b. Inl (ExternalError ''no mnemonics'')),
      to_string = (\<lambda>ob. Inr ''deck'')\<rparr>"

definition empty_world :: world where
  "empty_world = \<lparr>stdout = [], stderr = [], calls = []\<rparr>"

text \<open>
  A validation that failed with return code 3, and the variable \<open>k\<close> of the input a
  call returned, when it returned one.
\<close>

definition failed_validation :: validation where
  "failed_validation =
     \<lparr>retcode = 3, log_file = ''run.log'', stderr_file = ''run.err'',
      output_file_path = ''run.abo''\<rparr>"

definition vars_at :: "(pyexc + ('s, 'p) abinit_input) \<Rightarrow> string \<Rightarrow> pyval option" where
  "vars_at r k = (case r of Inl e \<Rightarrow> None | Inr inp \<Rightarrow> inp_vars inp k)"

subsection \<open>What the dataframe printer shows\<close>

text \<open>
  The frame \<open>print_dataframe\<close> is to display: the rows sorted by \<open>sortby\<close> when it
  is given and is one of the columns, the frame as it is otherwise; and the line
  of the title when there is one.
\<close>

definition shown_frame :: "pd_lib \<Rightarrow> string option \<Rightarrow> frame \<Rightarrow> frame" where
  "shown_frame lib sortby f =
     (case sortby of
        None \<Rightarrow> f
      | Some k \<Rightarrow> if k \<in> set (columns f) then f\<lparr>rows := sort_rows lib k f\<rparr> else f)"

definition title_lines :: "string option \<Rightarrow> string list" where
  "title_lines title = (case title of None \<Rightarrow> [] | Some t \<Rightarrow> [t])"

text \<open>
  A sample table of two rows whose order by the column \<open>a\<close> is the reverse of the
  order they are stored in, and a rendering that lists the first cell of each row.
\<close>

fun cell_text :: "pyval \<Rightarrow> string" where
  "cell_text (PInt i) = str_int i"
| "cell_text (PStr s) = s"
| "cell_text _ = ''?''"

definition sample_lib :: pd_lib where
  "sample_lib =
     \<lparr>sort_rows = (\<lambda>k f. rev (rows f)),
      to_text = (\<lambda>opts f. concat (map (\<lambda>r. cell_text (r ! 0)) (rows f)))\<rparr>"

definition sample_pandas :: pandas where
  "sample_pandas =
     \<lparr>frames = [\<lparr>columns = [''a'', ''b''], rows = [[PInt 2, PStr ''x''], [PInt 1, PStr ''y'']]\<rparr>],
      pd_options = (\<lambda>name. PInt 60),
      sink = []\<rparr>"

section \<open>Properties of the unit-cell registry\<close>

lemma agree_below_nth: "agree_below n h h' \<Longrightarrow> a < n \<Longrightarrow> h' ! a = h ! a"
  unfolding agree_below_def by (metis nth_take)

lemma closed_below_nth: "closed_below n h \<Longrightarrow> a < n \<Longrightarrow> obj_below n (h ! a)"
  unfolding closed_below_def by (simp add: list_all_length)

text \<open>
  The content of a value is read off the part of the heap its references reach: two
  heaps that agree below \<open>n\<close> give the same content to a value that stays below \<open>n\<close>.
\<close>

lemma snapshot_agree:
  "agree_below n h h' \<Longrightarrow> closed_below n h \<Longrightarrow> refs_below n v \<Longrightarrow>
   snapshot f h' v = snapshot f h v"
proof (induction f arbitrary: v)
  case 0
  then show ?case by (cases v) simp_all
next
  case (Suc f)
  show ?case
  proof (cases v)
    case (PRef a)
    with Suc.prems have a: "a < n" by simp
    from Suc.prems have len: "n \<le> length h" "n \<le> length h'"
      by (simp_all add: agree_below_def)
    have same: "h' ! a = h ! a" using agree_below_nth [OF Suc.prems(1) a] .
    have ob: "obj_below n (h ! a)" using closed_below_nth [OF Suc.prems(2) a] .
    show ?thesis
    proof (cases "h ! a")
      case (PList xs)
      with ob have "\<forall>x \<in> set xs. refs_below n x" by (simp add: list_all_iff)
      then have "map (snapshot f h') xs = map (snapshot f h) xs"
        using Suc.IH [OF Suc.prems(1) Suc.prems(2)] by simp
      with PRef PList same a len show ?thesis by (simp add: heap_get_def cong: map_cong)
    next
      case (PDict kvs)
      with ob have "\<forall>kv \<in> set kvs. refs_below n (snd kv)" by (simp add: list_all_iff)
      then have "map (\<lambda>kv. map_option (Pair (fst kv)) (snapshot f h' (snd kv))) kvs
               = map (\<lambda>kv. map_option (Pair (fst kv)) (snapshot f h (snd kv))) kvs"
        using Suc.IH [OF Suc.prems(1) Suc.prems(2)] by simp
      with PRef PDict same a len show ?thesis by (simp add: heap_get_def cong: map_cong)
    qed
  qed simp_all
qed

text \<open>\<open>r[k] = v\<close> and \<open>del r[k]\<close> write to the object \<open>r\<close> and to nothing below it.\<close>

lemma apply_mutation_top_level:
  "top_level m \<Longrightarrow> apply_mutation h r m = Inr h' \<Longrightarrow>
   length h' = length h \<and> (\<forall>n \<le> r. take n h' = take n h)"
  by (cases m) (auto simp: heap_get_def split: option.splits pyobj.splits if_splits)

lemma apply_mutations_top_level:
  "list_all top_level ms \<Longrightarrow>
   length (apply_mutations h r ms) = length h \<and> take r (apply_mutations h r ms) = take r h"
proof (induction ms arbitrary: h)
  case Nil
  then show ?case by simp
next
  case (Cons m ms)
  then have m: "top_level m" and ms: "list_all top_level ms" by simp_all
  show ?case
  proof (cases "apply_mutation h r m")
    case (Inl e)
    with Cons.IH [OF ms, of h] show ?thesis by simp
  next
    case (Inr h')
    from apply_mutation_top_level [OF m Inr]
    have "length h' = length h" "take r h' = take r h" by simp_all
    with Cons.IH [OF ms, of h'] Inr show ?thesis by simp
  qed
qed

lemma ucells_heap_closed: "closed_below (length ucells_heap) ucells_heap"
  by (simp add: closed_below_def ucells_heap_def fcc_rows_def xred_rows_def)

lemma UCELLS_dicts:
  "map_of UCELLS name = Some a \<Longrightarrow> \<exists>kvs. heap_get ucells_heap a = Some (PDict kvs)"
  by (auto simp: UCELLS_def heap_get_def ucells_heap_def fcc_rows_def xred_rows_def
      split: if_splits)

text \<open>
  On any heap that is closed under its references and holds a dictionary at the
  registered address: after a first lookup and any writes to the top level of its
  result, a second lookup has the content the registry had at the start.
\<close>

lemma second_lookup_isolated:
  assumes reg: "map_of UCELLS name = Some a"
    and dict: "heap_get h a = Some (PDict kvs)"
    and cl: "closed_below (length h) h"
    and tl: "list_all top_level ms"
  shows "second_lookup h name ms = Inr (stored_record h name)"
proof -
  let ?n = "length h"
  let ?h1 = "h @ [PDict kvs]"
  let ?hm = "apply_mutations ?h1 ?n ms"
  let ?h2 = "?hm @ [PDict kvs]"
  from dict have a: "a < ?n" and ha: "h ! a = PDict kvs"
    by (simp_all add: heap_get_def split: if_splits)
  from apply_mutations_top_level [OF tl, of ?h1 ?n]
  have len: "length ?hm = Suc ?n" and tk: "take ?n ?hm = h" by simp_all
  have hma: "?hm ! a = PDict kvs"
    using a ha tk by (metis nth_take)
  have u1: "ucell h name = Inr (?n, ?h1)"
    using reg dict by (simp add: ucell_def alloc_def)
  have u2: "ucell ?hm name = Inr (Suc ?n, ?h2)"
    using reg a hma len by (simp add: ucell_def alloc_def heap_get_def)
  have ag: "agree_below ?n h ?h2"
    using tk len by (simp add: agree_below_def)
  have ob: "obj_below ?n (PDict kvs)"
    using closed_below_nth [OF cl a] ha by simp
  then have below: "\<forall>kv \<in> set kvs. refs_below ?n (snd kv)" by (simp add: list_all_iff)
  have s2: "snapshot (Suc f) ?h2 (PRef (Suc ?n)) = snapshot (Suc f) h (PRef a)" for f
  proof -
    have "map (\<lambda>kv. map_option (Pair (fst kv)) (snapshot f ?h2 (snd kv))) kvs
        = map (\<lambda>kv. map_option (Pair (fst kv)) (snapshot f h (snd kv))) kvs"
      using below snapshot_agree [OF ag cl] by simp
    then show ?thesis
      using len dict by (simp add: heap_get_def nth_append cong: map_cong)
  qed
  show ?thesis
    unfolding second_lookup_def stored_record_def u1
    using u2 s2 [of 2] reg by (simp add: eval_nat_numeral)
qed

text \<open>
  Claim C2, as the code has it. \<open>ucell\<close> returns a shallow copy: for a registered
  name, whatever items the caller sets or deletes in the first returned record, the
  record of a second call has the content the registry had; for a name that is not
  registered, the lookup raises \<open>KeyError\<close>.
\<close>

theorem ucell_shallow_copy:
  "(name \<in> set ucell_names \<longrightarrow> list_all top_level ms \<longrightarrow>
      second_lookup ucells_heap name ms = Inr (stored_record ucells_heap name)) \<and>
   (name \<notin> set ucell_names \<longrightarrow> ucell h name = Inl (KeyError name))"
proof (intro conjI impI)
  assume name: "name \<in> set ucell_names" and tl: "list_all top_level ms"
  from name obtain a where reg: "map_of UCELLS name = Some a"
    by (auto simp: ucell_names_def UCELLS_def)
  from UCELLS_dicts [OF reg] obtain kvs where "heap_get ucells_heap a = Some (PDict kvs)" ..
  from second_lookup_isolated [OF reg this ucells_heap_closed tl]
  show "second_lookup ucells_heap name ms = Inr (stored_record ucells_heap name)" .
next
  assume "name \<notin> set ucell_names"
  then have "map_of UCELLS name = None"
    by (simp add: ucell_names_def map_of_eq_None_iff)
  then show "ucell h name = Inl (KeyError name)" by (simp add: ucell_def)
qed

theorem ucell_shallow_copy_witness:
  "second_lookup ucells_heap ''silicon'' [SetItem ''natom'' (PInt 5), DelItem ''typat'']
     = Inr (stored_record ucells_heap ''silicon'') \<and>
   ucell ucells_heap ''diamond'' = Inl (KeyError ''diamond'')"
  using ucell_shallow_copy [of "''silicon''" "[SetItem ''natom'' (PInt 5), DelItem ''typat'']"]
    ucell_shallow_copy [of "''diamond''" "[]" ucells_heap]
  by (simp add: ucell_names_def UCELLS_def)

text \<open>
  Claim C2, as the specification states it, fails: after \<open>r1 = ucell("silicon")\<close>
  and \<open>r1["typat"][0] = 2\<close>, the record of a second call has \<open>typat = [2, 1]\<close>,
  not the \<open>[1, 1]\<close> the registry had.
\<close>

theorem ucell_nested_mutation_counterexample:
  "second_lookup ucells_heap ''silicon'' [SetNested ''typat'' 0 (PInt 2)]
     \<noteq> Inr (stored_record ucells_heap ''silicon'')"
  by (simp add: second_lookup_def stored_record_def ucell_def UCELLS_def heap_get_def alloc_def
      ucells_heap_def fcc_rows_def xred_rows_def py_index_def eval_nat_numeral)

section \<open>Properties of the command-line front end\<close>

text \<open>
  Claim C1, as the code has it. With the PAW flag set, \<open>get_pseudotable\<close> builds
  the table from an explicit list of pseudopotential files when one was given;
  without a list it raises \<open>ImportError\<close> when \<open>pseudo_dojo\<close> is not installed and
  \<open>NotImplementedError\<close> when it is.
\<close>

theorem get_pseudotable_usepaw:
  assumes "usepaw opts"
  shows "fst (get_pseudotable env opts w) =
     (case pseudos opts of
        Some ps \<Rightarrow> PseudoTable_as_table env ps
      | None \<Rightarrow>
          (case dojo_tables env of
             None \<Rightarrow> Inl ImportError
           | Some tables \<Rightarrow> Inl (NotImplementedError ''PAW table is missing'')))"
  using assms by (simp add: get_pseudotable_def split: option.splits)

theorem get_pseudotable_usepaw_witness:
  "usepaw (default_options\<lparr>usepaw := True\<rparr>) \<and>
   fst (get_pseudotable sample_env (default_options\<lparr>usepaw := True\<rparr>) empty_world) =
     Inl (NotImplementedError ''PAW table is missing'')"
  using get_pseudotable_usepaw [of "default_options\<lparr>usepaw := True\<rparr>" sample_env empty_world]
  by (simp add: sample_env_def default_options_def)

text \<open>
  Claim C1, as the specification states it, fails: with the PAW flag set and the
  list \<open>--pseudos Si.psp8\<close>, \<open>get_pseudotable\<close> returns the table of that list.
\<close>

theorem get_pseudotable_usepaw_counterexample:
  "fst (get_pseudotable sample_env
          (default_options\<lparr>usepaw := True, pseudos := Some [''Si.psp8'']\<rparr>) empty_world)
   = Inr [''Si.psp8'']"
  by (simp add: get_pseudotable_def sample_env_def default_options_def)

text \<open>
  Claim C3. \<open>get_structure\<close> takes one of three ways: a path that exists is read
  from the file, and the only call made is that one, whatever the path looks like;
  a path that does not exist and starts with \<open>mp-\<close> is fetched by its identifier,
  with the key and the endpoint of the options; any other path raises \<open>TypeError\<close>
  with the path in the message, and no call is made.
\<close>

theorem get_structure_cases:
  "(path_exists env (filepath opts) \<longrightarrow>
      get_structure env opts w =
        (Structure_from_file env (filepath opts),
         w\<lparr>calls := calls w @ [FromFile (filepath opts)]\<rparr>)) \<and>
   (\<not> path_exists env (filepath opts) \<longrightarrow> prefix ''mp-'' (filepath opts) \<longrightarrow>
      get_structure env opts w =
        (Structure_from_mpid env (filepath opts) True (mapi_key opts) (endpoint opts),
         w\<lparr>calls := calls w @
            [FromMpid (filepath opts) True (mapi_key opts) (endpoint opts)]\<rparr>)) \<and>
   (\<not> path_exists env (filepath opts) \<longrightarrow> \<not> prefix ''mp-'' (filepath opts) \<longrightarrow>
      get_structure env opts w =
        (Inl (TypeError (''Don't know how to extract structure object from '' @ filepath opts)),
         w))"
  by (simp add: get_structure_def record_call_def)

theorem get_structure_cases_witness:
  "get_structure
       (sample_env\<lparr>path_exists := (\<lambda>p. True),
                   Structure_from_file := (\<lambda>p. Inr (''file:'' @ p))\<rparr>)
       (default_options\<lparr>filepath := ''mp-149''\<rparr>) empty_world
     = (Inr ''file:mp-149'', empty_world\<lparr>calls := [FromFile ''mp-149'']\<rparr>) \<and>
   get_structure sample_env (default_options\<lparr>filepath := ''mp-149''\<rparr>) empty_world
     = (Inr ''mp:mp-149'',
        empty_world\<lparr>calls :=
          [FromMpid ''mp-149'' True None ''https://www.materialsproject.org/rest/v2'']\<rparr>) \<and>
   get_structure sample_env (default_options\<lparr>filepath := ''nofile.cif''\<rparr>) empty_world
     = (Inl (TypeError ''Don't know how to extract structure object from nofile.cif''),
        empty_world)"
  using
    get_structure_cases
      [of "sample_env\<lparr>path_exists := (\<lambda>p. True),
                      Structure_from_file := (\<lambda>p. Inr (''file:'' @ p))\<rparr>"
          "default_options\<lparr>filepath := ''mp-149''\<rparr>" empty_world]
    get_structure_cases [of sample_env "default_options\<lparr>filepath := ''mp-149''\<rparr>" empty_world]
    get_structure_cases [of sample_env "default_options\<lparr>filepath := ''nofile.cif''\<rparr>" empty_world]
  by (simp add: sample_env_def default_options_def empty_world_def)

text \<open>
  Claim C4 fails for \<open>gs\<close>. On the path \<open>mp-149\<close>, which is no file, \<open>abinp_gs\<close>
  hands the path to \<open>Structure.from_file\<close> and ends with that call's error; it
  never fetches by identifier. \<open>abinp_ebands\<close>, \<open>abinp_phonons\<close> and \<open>abinp_g0w0\<close>
  go through \<open>get_structure\<close> and fetch \<open>mp-149\<close> from the database.
\<close>

theorem abinp_gs_bypasses_get_structure:
  "calls (snd (abinp_gs sample_env (default_options\<lparr>filepath := ''mp-149''\<rparr>) empty_world))
     = [FromFile ''mp-149''] \<and>
   fst (abinp_gs sample_env (default_options\<lparr>filepath := ''mp-149''\<rparr>) empty_world)
     = Inl (ExternalError ''No such file'') \<and>
   calls (snd (abinp_ebands sample_env (default_options\<lparr>filepath := ''mp-149''\<rparr>) empty_world))
     = [FromMpid ''mp-149'' True None ''https://www.materialsproject.org/rest/v2''] \<and>
   calls (snd (abinp_phonons sample_env (default_options\<lparr>filepath := ''mp-149''\<rparr>) empty_world))
     = [FromMpid ''mp-149'' True None ''https://www.materialsproject.org/rest/v2''] \<and>
   calls (snd (abinp_g0w0 sample_env (default_options\<lparr>filepath := ''mp-149''\<rparr>) empty_world))
     = [FromMpid ''mp-149'' True None ''https://www.materialsproject.org/rest/v2'']"
  by (simp add: abinp_gs_def abinp_ebands_def abinp_phonons_def abinp_g0w0_def
      get_structure_def get_pseudotable_def finalize_def record_call_def
      print_def set_in_last_def py_index_def
      sample_env_def default_options_def empty_world_def sample_input_def)

text \<open>The loop over \<open>multi[1:]\<close> keeps the length and the first input, and sets the
  variable in every later one.\<close>

lemma set_in_tail_length: "length (set_in_tail k v multi) = length multi"
  by (cases multi) simp_all

lemma set_in_tail_first: "multi \<noteq> [] \<Longrightarrow> set_in_tail k v multi ! 0 = multi ! 0"
  by (cases multi) simp_all

lemma set_in_tail_later:
  "1 \<le> i \<Longrightarrow> i < length multi \<Longrightarrow> inp_vars (set_in_tail k v multi ! i) k = Some v"
  by (cases multi; cases i) (simp_all add: setitem_def)

text \<open>
  Claim C5. When the factory of \<open>ebands\<close>, or of \<open>phonons\<close>, returns N datasets,
  N at least 2, the handler prints the deck in which every dataset 2..N (index 1
  and up) has \<open>getwfk = 1\<close> and dataset 1 is the one the factory returned,
  untouched.
\<close>

theorem getwfk_back_reference:
  assumes "2 \<le> length multi"
    and "get_structure env opts w = (Inr s, w1)"
    and "get_pseudotable env opts w1 = (Inr t, w2)"
  shows
    "(ebands_input env s t ebands_kwargs = Inr multi \<longrightarrow>
        abinp_ebands env opts w =
          finalize (multi_ops env) (set_in_tail ''getwfk'' (PInt 1) multi) opts w2) \<and>
     (gs_input env s t gs_kwargs = Inr gsinp \<longrightarrow>
      phonons_from_gsinput env gsinp phonons_kwargs = Inr multi \<longrightarrow>
        abinp_phonons env opts w =
          finalize (multi_ops env) (set_in_tail ''getwfk'' (PInt 1) multi) opts w2) \<and>
     length (set_in_tail ''getwfk'' (PInt 1) multi) = length multi \<and>
     set_in_tail ''getwfk'' (PInt 1) multi ! 0 = multi ! 0 \<and>
     (\<forall>i. 1 \<le> i \<longrightarrow> i < length multi \<longrightarrow>
        inp_vars (set_in_tail ''getwfk'' (PInt 1) multi ! i) ''getwfk'' = Some (PInt 1))"
proof (intro conjI allI impI)
  assume "ebands_input env s t ebands_kwargs = Inr multi"
  with assms(2,3) show "abinp_ebands env opts w =
    finalize (multi_ops env) (set_in_tail ''getwfk'' (PInt 1) multi) opts w2"
    by (simp add: abinp_ebands_def)
next
  assume "gs_input env s t gs_kwargs = Inr gsinp"
    and "phonons_from_gsinput env gsinp phonons_kwargs = Inr multi"
  with assms(2,3) show "abinp_phonons env opts w =
    finalize (multi_ops env) (set_in_tail ''getwfk'' (PInt 1) multi) opts w2"
    by (simp add: abinp_phonons_def)
next
  show "length (set_in_tail ''getwfk'' (PInt 1) multi) = length multi"
    by (rule set_in_tail_length)
next
  from assms(1) have "multi \<noteq> []" by auto
  then show "set_in_tail ''getwfk'' (PInt 1) multi ! 0 = multi ! 0"
    by (rule set_in_tail_first)
next
  fix i assume "1 \<le> i" "i < length multi"
  then show "inp_vars (set_in_tail ''getwfk'' (PInt 1) multi ! i) ''getwfk'' = Some (PInt 1)"
    by (rule set_in_tail_later)
qed

theorem getwfk_back_reference_witness:
  "abinp_ebands sample_env sample_gs_options empty_world =
     finalize (multi_ops sample_env)
       [sample_input ''file:si.cif'' [''Si.psp8''],
        setitem ''getwfk'' (PInt 1) (sample_input ''file:si.cif'' [''Si.psp8''])]
       sample_gs_options (record_call (FromFile ''si.cif'') empty_world) \<and>
   abinp_phonons sample_env sample_gs_options empty_world =
     finalize (multi_ops sample_env)
       [sample_input ''file:si.cif'' [''Si.psp8''],
        setitem ''getwfk'' (PInt 1) (sample_input ''file:si.cif'' [''Si.psp8'']),
        setitem ''getwfk'' (PInt 1) (sample_input ''file:si.cif'' [''Si.psp8''])]
       sample_gs_options (record_call (FromFile ''si.cif'') empty_world) \<and>
   inp_vars (sample_input ''file:si.cif'' [''Si.psp8'']) ''getwfk'' = None \<and>
   inp_vars (setitem ''getwfk'' (PInt 1) (sample_input ''file:si.cif'' [''Si.psp8''])) ''getwfk''
     = Some (PInt 1)"
proof -
  let ?d = "sample_input ''file:si.cif'' [''Si.psp8'']"
  let ?w1 = "record_call (FromFile ''si.cif'') empty_world"
  have len2: "2 \<le> length [?d, ?d]" and len3: "2 \<le> length [?d, ?d, ?d]" by simp_all
  have s: "get_structure sample_env sample_gs_options empty_world = (Inr ''file:si.cif'', ?w1)"
    by (simp add: get_structure_def sample_env_def sample_gs_options_def default_options_def)
  have p: "get_pseudotable sample_env sample_gs_options ?w1 = (Inr [''Si.psp8''], ?w1)"
    by (simp add: get_pseudotable_def sample_env_def sample_gs_options_def default_options_def)
  have e: "ebands_input sample_env ''file:si.cif'' [''Si.psp8''] ebands_kwargs = Inr [?d, ?d]"
    by (simp add: sample_env_def)
  have g: "gs_input sample_env ''file:si.cif'' [''Si.psp8''] gs_kwargs = Inr ?d"
    by (simp add: sample_env_def)
  have ph: "phonons_from_gsinput sample_env ?d phonons_kwargs = Inr [?d, ?d, ?d]"
    by (simp add: sample_env_def)
  from getwfk_back_reference [OF len2 s p, of ?d] e
  have 1: "abinp_ebands sample_env sample_gs_options empty_world =
      finalize (multi_ops sample_env) (set_in_tail ''getwfk'' (PInt 1) [?d, ?d])
        sample_gs_options ?w1"
    by simp
  from getwfk_back_reference [OF len3 s p, of ?d] g ph
  have 2: "abinp_phonons sample_env sample_gs_options empty_world =
      finalize (multi_ops sample_env) (set_in_tail ''getwfk'' (PInt 1) [?d, ?d, ?d])
        sample_gs_options ?w1"
    by simp
  show ?thesis
    using 1 2 by (simp add: setitem_def sample_input_def)
qed

text \<open>
  What \<open>main\<close> does when \<open>parse_args\<close> raises and when there is no verb: an
  exception under \<open>Exception\<close>, or a missing verb, prints the epilog to standard
  error and exits with 1; a \<open>SystemExit\<close> passes the \<open>except\<close> clause.
\<close>

lemma main_parse_failure:
  "parse_args env argv = Inl exc \<Longrightarrow>
   main env argv w =
     (if is_Exception exc then (Inl (SystemExit 1), w\<lparr>stderr := stderr w @ [get_epilog]\<rparr>)
      else (Inl exc, w))"
  by (simp add: main_def show_examples_and_exit_def)

lemma main_no_verb:
  "parse_args env argv = Inr opts \<Longrightarrow> command opts = None \<or> command opts = Some [] \<Longrightarrow>
   main env argv w = (Inl (SystemExit 1), w\<lparr>stderr := stderr w @ [get_epilog]\<rparr>)"
  by (auto simp: main_def show_examples_and_exit_def)

text \<open>
  Claim C6 fails for an argument list the parser rejects. On the verb \<open>foo\<close>, which
  is none of the eleven, \<open>parse_args\<close> ends in \<open>sys.exit(2)\<close>; \<open>SystemExit\<close> is no
  \<open>Exception\<close>, so \<open>main\<close> does not reach \<open>show_examples_and_exit\<close>: the epilog is
  not written and the process ends with status 2, not 1.
\<close>

theorem main_unrecognized_verb:
  "main sample_env [''foo'', ''si.cif''] empty_world = (Inl (SystemExit 2), empty_world) \<and>
   exit_status (fst (main sample_env [''foo'', ''si.cif''] empty_world)) = 2"
  by (simp add: main_def sample_env_def verbs_def)

text \<open>
  What \<open>finalize\<close> does in each of its three ways: both methods of the object
  return, \<open>set_mnemonics\<close> raises, or the rendering raises.
\<close>

lemma finalize_returns:
  "(if mnemonics opts then set_mnemonics ops obj True else Inr obj) = Inr obj' \<Longrightarrow>
   to_string ops obj' = Inr rendering \<Longrightarrow>
   finalize ops obj opts w = (Inr 0, w\<lparr>stdout := stdout w @ [rendering, nl] @ disclaimer\<rparr>)"
  by (simp add: finalize_def print_def disclaimer_def Let_def)

lemma finalize_raises:
  "(if mnemonics opts then set_mnemonics ops obj True else Inr obj) = Inl e \<Longrightarrow>
   finalize ops obj opts w = (Inl e, w)"
  "(if mnemonics opts then set_mnemonics ops obj True else Inr obj) = Inr obj' \<Longrightarrow>
   to_string ops obj' = Inl e \<Longrightarrow> finalize ops obj opts w = (Inl e, w)"
  by (simp_all add: finalize_def)

text \<open>
  Claim C7, as the code has it. \<open>finalize\<close> has no failure of its own: when the
  object's \<open>set_mnemonics\<close>, called only if mnemonics are asked for, and its
  rendering return, \<open>finalize\<close> prints the rendering, a newline and the three lines
  of the disclaimer and returns 0; an exception of either method leaves
  \<open>finalize\<close> as it is, with nothing printed. A \<open>gs\<close> run whose structure file is
  read, whose list of pseudopotential files makes a table, whose factory returns
  an input and whose input is rendered ends with status 0 and that output.
\<close>

theorem finalize_returns_zero:
  "((if mnemonics opts then set_mnemonics ops obj True else Inr obj) = Inr obj' \<longrightarrow>
    to_string ops obj' = Inr rendering \<longrightarrow>
      finalize ops obj opts w =
        (Inr 0, w\<lparr>stdout := stdout w @ [rendering, nl] @ disclaimer\<rparr>)) \<and>
   ((if mnemonics opts then set_mnemonics ops obj True else Inr obj) = Inl e \<longrightarrow>
      finalize ops obj opts w = (Inl e, w)) \<and>
   ((if mnemonics opts then set_mnemonics ops obj True else Inr obj) = Inr obj' \<longrightarrow>
    to_string ops obj' = Inl e \<longrightarrow>
      finalize ops obj opts w = (Inl e, w)) \<and>
   length disclaimer = 3 \<and>
   prefix ''# This input file template has been automatically generated by the abinp.py script.''
     (disclaimer ! 0) \<and>
   (parse_args env argv = Inr gs_opts \<longrightarrow> command gs_opts = Some ''gs'' \<longrightarrow>
    logging_getattr env (upper (loglevel gs_opts)) = Some (PInt level) \<longrightarrow>
    Structure_from_file env (filepath gs_opts) = Inr s \<longrightarrow>
    pseudos gs_opts = Some ps \<longrightarrow> PseudoTable_as_table env ps = Inr t \<longrightarrow>
    gs_input env s t gs_kwargs = Inr gsinp \<longrightarrow>
    (if mnemonics gs_opts then set_mnemonics (input_ops env) gsinp True else Inr gsinp)
      = Inr gsinp' \<longrightarrow>
    to_string (input_ops env) gsinp' = Inr gs_rendering \<longrightarrow>
      exit_status (fst (main env argv w0)) = 0 \<and>
      stdout (snd (main env argv w0)) = stdout w0 @ [gs_rendering, nl] @ disclaimer)"
proof (intro conjI impI)
  assume "(if mnemonics opts then set_mnemonics ops obj True else Inr obj) = Inr obj'"
    and "to_string ops obj' = Inr rendering"
  then show "finalize ops obj opts w =
      (Inr 0, w\<lparr>stdout := stdout w @ [rendering, nl] @ disclaimer\<rparr>)"
    by (rule finalize_returns)
next
  assume "(if mnemonics opts then set_mnemonics ops obj True else Inr obj) = Inl e"
  then show "finalize ops obj opts w = (Inl e, w)"
    by (rule finalize_raises(1))
next
  assume "(if mnemonics opts then set_mnemonics ops obj True else Inr obj) = Inr obj'"
    and "to_string ops obj' = Inl e"
  then show "finalize ops obj opts w = (Inl e, w)"
    by (rule finalize_raises(2))
next
  show "length disclaimer = 3" by (simp add: disclaimer_def)
  show "prefix ''# This input file template has been automatically generated by the abinp.py script.''
     (disclaimer ! 0)" by (simp add: disclaimer_def)
next
  assume a: "parse_args env argv = Inr gs_opts" "command gs_opts = Some ''gs''"
    "logging_getattr env (upper (loglevel gs_opts)) = Some (PInt level)"
    "Structure_from_file env (filepath gs_opts) = Inr s"
    "pseudos gs_opts = Some ps" "PseudoTable_as_table env ps = Inr t"
    "gs_input env s t gs_kwargs = Inr gsinp"
    and b: "(if mnemonics gs_opts then set_mnemonics (input_ops env) gsinp True else Inr gsinp)
      = Inr gsinp'"
    and c: "to_string (input_ops env) gsinp' = Inr gs_rendering"
  have m: "main env argv w0 =
     finalize (input_ops env) gsinp gs_opts
       (record_call (FromFile (filepath gs_opts)) (record_call (Dispatch ''gs'') w0))"
    using a by (simp add: main_def dispatch_def abinp_gs_def get_pseudotable_def)
  show "exit_status (fst (main env argv w0)) = 0"
    unfolding m finalize_returns [OF b c] by simp
  show "stdout (snd (main env argv w0)) = stdout w0 @ [gs_rendering, nl] @ disclaimer"
    unfolding m finalize_returns [OF b c] by (simp add: record_call_def)
qed

theorem finalize_returns_zero_witness:
  "exit_status (fst (main sample_env [''gs'', ''si.cif'', ''--pseudos'', ''Si.psp8''] empty_world)) = 0 \<and>
   stdout (snd (main sample_env [''gs'', ''si.cif'', ''--pseudos'', ''Si.psp8''] empty_world)) =
     [''file:si.cif'', nl] @ disclaimer \<and>
   finalize unprintable_ops () default_options empty_world =
     (Inl (ExternalError ''cannot render''), empty_world) \<and>
   finalize no_mnemonics_ops () (default_options\<lparr>mnemonics := True\<rparr>) empty_world =
     (Inl (ExternalError ''no mnemonics''), empty_world)"
proof -
  let ?opts = "sample_gs_options\<lparr>command := Some ''gs''\<rparr>"
  let ?d = "sample_input ''file:si.cif'' [''Si.psp8'']"
  have 1: "parse_args sample_env [''gs'', ''si.cif'', ''--pseudos'', ''Si.psp8''] = Inr ?opts"
    by (simp add: sample_env_def verbs_def sample_gs_options_def)
  have 2: "command ?opts = Some ''gs''" by simp
  have 3: "logging_getattr sample_env (upper (loglevel ?opts)) = Some (PInt 40)"
    by (simp add: sample_env_def sample_gs_options_def default_options_def upper_def
        upper_char_def)
  have 4: "Structure_from_file sample_env (filepath ?opts) = Inr ''file:si.cif''"
    by (simp add: sample_env_def sample_gs_options_def)
  have 5: "pseudos ?opts = Some [''Si.psp8'']" by (simp add: sample_gs_options_def)
  have 6: "PseudoTable_as_table sample_env [''Si.psp8''] = Inr [''Si.psp8'']"
    by (simp add: sample_env_def)
  have 7: "gs_input sample_env ''file:si.cif'' [''Si.psp8''] gs_kwargs = Inr ?d"
    by (simp add: sample_env_def)
  have 8: "(if mnemonics ?opts then set_mnemonics (input_ops sample_env) ?d True else Inr ?d)
      = Inr ?d"
    by (simp add: sample_gs_options_def default_options_def)
  have 9: "to_string (input_ops sample_env) ?d = Inr ''file:si.cif''"
    by (simp add: sample_env_def sample_input_def)
  note gs = finalize_returns_zero [where env = sample_env
      and argv = "[''gs'', ''si.cif'', ''--pseudos'', ''Si.psp8'']" and gs_opts = ?opts
      and level = 40 and s = "''file:si.cif''" and ps = "[''Si.psp8'']"
      and t = "[''Si.psp8'']" and gsinp = ?d and gsinp' = ?d
      and gs_rendering = "''file:si.cif''" and ?w0.0 = empty_world,
      THEN conjunct2, THEN conjunct2, THEN conjunct2, THEN conjunct2, THEN conjunct2,
      rule_format, OF 1 2 3 4 5 6 7 8 9]
  have u1: "(if mnemonics default_options then set_mnemonics unprintable_ops () True else Inr ())
      = Inr ()"
    by (simp add: default_options_def)
  have u2: "to_string unprintable_ops () = Inl (ExternalError ''cannot render'')"
    by (simp add: unprintable_ops_def)
  note raises = finalize_returns_zero [where ops = unprintable_ops and obj = "()"
      and obj' = "()" and opts = default_options and w = empty_world
      and e = "ExternalError ''cannot render''",
      THEN conjunct2, THEN conjunct2, THEN conjunct1, rule_format, OF u1 u2]
  have n1: "(if mnemonics (default_options\<lparr>mnemonics := True\<rparr>)
             then set_mnemonics no_mnemonics_ops () True else Inr ())
      = Inl (ExternalError ''no mnemonics'')"
    by (simp add: no_mnemonics_ops_def)
  note refuses = finalize_returns_zero [where ops = no_mnemonics_ops and obj = "()"
      and opts = "default_options\<lparr>mnemonics := True\<rparr>" and w = empty_world
      and e = "ExternalError ''no mnemonics''",
      THEN conjunct2, THEN conjunct1, rule_format, OF n1]
  from gs raises refuses show ?thesis
    by (simp add: empty_world_def)
qed

text \<open>
  Claim C7, as the specification states it, fails: \<open>finalize\<close> does not return 0
  for every object. On an object whose rendering raises, \<open>print(obj)\<close> raises and
  \<open>finalize\<close> returns nothing.
\<close>

theorem finalize_raises_counterexample:
  "fst (finalize unprintable_ops () default_options empty_world)
     = Inl (ExternalError ''cannot render'')"
  by (simp add: finalize_def unprintable_ops_def default_options_def)

text \<open>
  Claim C8. Once the input is built and \<open>abivalidate\<close> has returned: a nonzero
  return code is printed with the log files and returned as it is; with return
  code 0, an exception from parsing the output file is printed and the result is
  1, and a parsed output file gives 0.
\<close>

theorem abinp_abispg_codes:
  assumes "build_abinit_input_from_file env opts abispg_abivars w = (Inr inp, w1)"
    and "abivalidate env inp = Inr r"
  shows "(retcode r \<noteq> 0 \<longrightarrow>
            abinp_abispg env opts w =
              (Inr (retcode r), w1\<lparr>stdout := stdout w1 @ [log_file r @ '' '' @ stderr_file r]\<rparr>)) \<and>
         (retcode r = 0 \<longrightarrow> abiopen env (output_file_path r) = Inl exc \<longrightarrow> is_Exception exc \<longrightarrow>
            abinp_abispg env opts w =
              (Inr 1, w1\<lparr>stdout := stdout w1 @
                 [''Error while trying to parse output file: '' @ output_file_path r,
                  ''Exception:'' @ nl @ '' '' @ str_exc env exc]\<rparr>)) \<and>
         (retcode r = 0 \<longrightarrow> abiopen env (output_file_path r) = Inr out \<longrightarrow>
            fst (abinp_abispg env opts w) = Inr 0)"
  using assms by (simp add: abinp_abispg_def print_def Let_def)

lemma sample_build:
  "AbinitInputFile env = AbinitInputFile sample_env \<Longrightarrow> dojo_tables env = dojo_tables sample_env \<Longrightarrow>
   repr_table env = repr_table sample_env \<Longrightarrow>
   \<exists>inp w1. build_abinit_input_from_file env (default_options\<lparr>filepath := ''run.abi''\<rparr>)
      abispg_abivars empty_world = (Inr inp, w1)"
  by (simp add: build_abinit_input_from_file_def get_pseudotable_def sample_env_def
      default_options_def sample_abifile_def py_getitem_def py_index_def)

theorem abinp_abispg_codes_witness:
  "fst (abinp_abispg (sample_env\<lparr>abivalidate := (\<lambda>inp. Inr failed_validation)\<rparr>)
          (default_options\<lparr>filepath := ''run.abi''\<rparr>) empty_world) = Inr 3 \<and>
   fst (abinp_abispg sample_env (default_options\<lparr>filepath := ''run.abi''\<rparr>) empty_world) = Inr 1 \<and>
   fst (abinp_abispg (sample_env\<lparr>abiopen := (\<lambda>p. Inr ''out'')\<rparr>)
          (default_options\<lparr>filepath := ''run.abi''\<rparr>) empty_world) = Inr 0"
proof -
  let ?opts = "default_options\<lparr>filepath := ''run.abi''\<rparr>"
  let ?e1 = "sample_env\<lparr>abivalidate := (\<lambda>inp. Inr failed_validation)\<rparr>"
  let ?e3 = "sample_env\<lparr>abiopen := (\<lambda>p. Inr ''out'')\<rparr>"
  obtain inp1 w1 where b1:
    "build_abinit_input_from_file ?e1 ?opts abispg_abivars empty_world = (Inr inp1, w1)"
    using sample_build [of ?e1] by auto
  have v1: "abivalidate ?e1 inp1 = Inr failed_validation" by simp
  from abinp_abispg_codes [OF b1 v1]
  have 1: "fst (abinp_abispg ?e1 ?opts empty_world) = Inr 3"
    by (simp add: failed_validation_def)
  obtain inp2 w2 where b2:
    "build_abinit_input_from_file sample_env ?opts abispg_abivars empty_world = (Inr inp2, w2)"
    using sample_build [of sample_env] by auto
  obtain r where v2: "abivalidate sample_env inp2 = Inr r" and r: "retcode r = 0"
    and o2: "abiopen sample_env (output_file_path r) = Inl (ValueError ''cannot parse'')"
    by (simp add: sample_env_def)
  from abinp_abispg_codes [OF b2 v2, of "ValueError ''cannot parse''"] r o2
  have 2: "fst (abinp_abispg sample_env ?opts empty_world) = Inr 1" by simp
  obtain inp3 w3 where b3:
    "build_abinit_input_from_file ?e3 ?opts abispg_abivars empty_world = (Inr inp3, w3)"
    using sample_build [of ?e3] by auto
  obtain r3 where v3: "abivalidate ?e3 inp3 = Inr r3" and r3: "retcode r3 = 0"
    by (simp add: sample_env_def)
  have o3: "abiopen ?e3 (output_file_path r3) = Inr ''out''" by simp
  from abinp_abispg_codes [OF b3 v3, of _ "''out''"] r3 o3
  have 3: "fst (abinp_abispg ?e3 ?opts empty_world) = Inr 0" by simp
  from 1 2 3 show ?thesis by simp
qed

section \<open>Properties of the dataframe printer\<close>

text \<open>
  Claim C9. \<open>print_dataframe\<close> leaves every frame that existed, the caller's among
  them, as it was; the options of pandas are after the call what they were before
  it; and what is written is the title, if any, then the frame, rendered with the
  three options overridden and with its rows sorted exactly when \<open>sortby\<close> is one
  of its columns, then a line with one blank.
\<close>

theorem print_dataframe_frame:
  assumes "fr < length (frames w)"
  shows "take (length (frames w)) (frames (print_dataframe lib fr title precision sortby w))
           = frames w \<and>
         frames (print_dataframe lib fr title precision sortby w) ! fr = frames w ! fr \<and>
         pd_options (print_dataframe lib fr title precision sortby w) = pd_options w \<and>
         sink (print_dataframe lib fr title precision sortby w) =
           sink w @ title_lines title @
           [to_text lib
              ((pd_options w)
                 (''display.max_rows'' :=
                    PInt (int (length (rows (shown_frame lib sortby (frames w ! fr))))),
                  ''display.max_columns'' :=
                    PInt (int (length (columns (shown_frame lib sortby (frames w ! fr))))),
                  ''display.precision'' := PInt precision))
              (shown_frame lib sortby (frames w ! fr)),
            '' '']"
  using assms
  by (auto simp: print_dataframe_def sort_values_def option_context_enter_def
      option_context_exit_def print_to_def shown_frame_def title_lines_def Let_def nth_append
      fun_eq_iff split: option.splits)

theorem print_dataframe_frame_witness:
  "frames (print_dataframe sample_lib 0 (Some ''table'') 6 (Some ''a'') sample_pandas) ! 0
     = frames sample_pandas ! 0 \<and>
   pd_options (print_dataframe sample_lib 0 (Some ''table'') 6 (Some ''a'') sample_pandas)
     = pd_options sample_pandas \<and>
   sink (print_dataframe sample_lib 0 (Some ''table'') 6 (Some ''a'') sample_pandas)
     = [''table'', ''12'', '' ''] \<and>
   sink (print_dataframe sample_lib 0 None 6 (Some ''c'') sample_pandas) = [''21'', '' '']"
proof -
  have len: "0 < length (frames sample_pandas)" by (simp add: sample_pandas_def)
  from print_dataframe_frame [OF len, of sample_lib "Some ''table''" 6 "Some ''a''"]
    print_dataframe_frame [OF len, of sample_lib None 6 "Some ''c''"]
  show ?thesis
    by (simp add: sample_pandas_def sample_lib_def shown_frame_def title_lines_def
        str_int_def)
qed

section \<open>Properties of the inputs built from a file\<close>

text \<open>
  Claim C10. For \<open>jdtset\<close> from 1 to the number of datasets, the input built from a
  file takes its variables from dataset number \<open>jdtset\<close> of the file; \<open>jdtset\<close>
  itself is added exactly when \<open>ndtset\<close> is not 1; and a variable the handler
  passes wins over both. The default of \<open>--jdtset\<close> is 1, and \<open>abispg\<close> passes
  \<open>chkprim = 0\<close> and \<open>mem_test = 0\<close>.
\<close>

theorem build_input_vars:
  assumes "AbinitInputFile env (filepath opts) = Inr abifile"
    and "get_pseudotable env opts w = (Inr t, w1)"
    and "1 \<le> jdtset opts" and "jdtset opts \<le> int (length (datasets abifile))"
  shows "fst (build_abinit_input_from_file env opts abivars w) =
           Inr \<lparr>inp_structure = file_structure abifile, inp_pseudos = t,
                inp_vars =
                  (\<lambda>k. case abivars k of
                         Some v \<Rightarrow> Some v
                       | None \<Rightarrow>
                           if k = ''jdtset'' \<and> ndtset abifile \<noteq> 1
                           then Some (PInt (jdtset opts))
                           else (datasets abifile ! nat (jdtset opts - 1)) k)\<rparr> \<and>
         jdtset default_options = 1 \<and>
         abispg_abivars ''chkprim'' = Some (PInt 0) \<and>
         abispg_abivars ''mem_test'' = Some (PInt 0)"
proof (intro conjI)
  let ?file_vars = "datasets abifile ! nat (jdtset opts - 1)"
  have sel: "py_getitem (datasets abifile) (jdtset opts - 1) = Inr ?file_vars"
    using assms(3,4) by (simp add: py_getitem_def py_index_def)
  have vars: "(if ndtset abifile \<noteq> 1 then ?file_vars(''jdtset'' \<mapsto> PInt (jdtset opts))
               else ?file_vars) ++ abivars =
      (\<lambda>k. case abivars k of
              Some v \<Rightarrow> Some v
            | None \<Rightarrow>
                if k = ''jdtset'' \<and> ndtset abifile \<noteq> 1
                then Some (PInt (jdtset opts))
                else ?file_vars k)"
    by (auto simp: fun_eq_iff map_add_def split: option.splits)
  show "fst (build_abinit_input_from_file env opts abivars w) =
           Inr \<lparr>inp_structure = file_structure abifile, inp_pseudos = t,
                inp_vars =
                  (\<lambda>k. case abivars k of
                         Some v \<Rightarrow> Some v
                       | None \<Rightarrow>
                           if k = ''jdtset'' \<and> ndtset abifile \<noteq> 1
                           then Some (PInt (jdtset opts))
                           else ?file_vars k)\<rparr>"
    unfolding vars [symmetric]
    using assms(1,2) sel by (simp add: build_abinit_input_from_file_def)
  show "jdtset default_options = 1" by (simp add: default_options_def)
  show "abispg_abivars ''chkprim'' = Some (PInt 0)" by (simp add: abispg_abivars_def)
  show "abispg_abivars ''mem_test'' = Some (PInt 0)" by (simp add: abispg_abivars_def)
qed

theorem build_input_vars_witness:
  "vars_at (fst (build_abinit_input_from_file sample_env
       (default_options\<lparr>filepath := ''run.abi''\<rparr>) abispg_abivars empty_world)) ''chkprim''
     = Some (PInt 0) \<and>
   vars_at (fst (build_abinit_input_from_file sample_env
       (default_options\<lparr>filepath := ''run.abi''\<rparr>) abispg_abivars empty_world)) ''jdtset''
     = Some (PInt 1) \<and>
   vars_at (fst (build_abinit_input_from_file sample_env
       (default_options\<lparr>filepath := ''run.abi''\<rparr>) abispg_abivars empty_world)) ''ecut''
     = Some (PInt 8) \<and>
   vars_at (fst (build_abinit_input_from_file sample_env
       (default_options\<lparr>filepath := ''run.abi'', jdtset := 2\<rparr>) Map.empty empty_world)) ''ecut''
     = Some (PInt 12)"
proof -
  let ?o1 = "default_options\<lparr>filepath := ''run.abi''\<rparr>"
  let ?o2 = "default_options\<lparr>filepath := ''run.abi'', jdtset := 2\<rparr>"
  let ?t = "[''ONCVPSP-PBE-PDv0.2-accuracy'']"
  let ?w1 = "print ''Using pseudos from PseudoDojo table ONCVPSP-PBE-PDv0.2-accuracy'' empty_world"
  have f1: "AbinitInputFile sample_env (filepath ?o1) = Inr sample_abifile"
    and f2: "AbinitInputFile sample_env (filepath ?o2) = Inr sample_abifile"
    by (simp_all add: sample_env_def)
  have p1: "get_pseudotable sample_env ?o1 empty_world = (Inr ?t, ?w1)"
    and p2: "get_pseudotable sample_env ?o2 empty_world = (Inr ?t, ?w1)"
    by (simp_all add: get_pseudotable_def sample_env_def default_options_def)
  have j1: "1 \<le> jdtset ?o1" "jdtset ?o1 \<le> int (length (datasets sample_abifile))"
    and j2: "1 \<le> jdtset ?o2" "jdtset ?o2 \<le> int (length (datasets sample_abifile))"
    by (simp_all add: default_options_def sample_abifile_def)
  from build_input_vars [OF f1 p1 j1, of abispg_abivars]
    build_input_vars [OF f2 p2 j2, of Map.empty]
  show ?thesis
    by (simp add: vars_at_def abispg_abivars_def sample_abifile_def default_options_def)
qed

end
